theory Spec2Isabelle
  imports Main
begin

section \<open>Syntax trees\<close>

text \<open>
  The values a runtime-data argument list may hold: \<^verbatim>\<open>string | boolean | number | null\<close>.
  Numbers are only carried from the runtime data to the emitted decorator, never computed
  with, so an integer stands for them.
\<close>

datatype literal = LString string | LBoolean bool | LNumber int | LNull

text \<open>
  Syntax-tree nodes, as far as the helpers look into them: the \<^verbatim>\<open>type\<close> tag, the
  properties of an object expression, and of a property its key name, its value, its
  \<^verbatim>\<open>computed\<close> flag (optional) and its comments (optional). \<open>is_method\<close> tells the
  method shorthand \<^verbatim>\<open>foo() {}\<close> from \<^verbatim>\<open>foo: value\<close>.
\<close>

datatype node =
    ObjectExpression (properties: "EOExpressionProp list")
  | ArrayExpression "node list"
  | FunctionExpression string
  | CallExpression node "node list"
  | Identifier string
  | Literal literal
  | OtherNode string
and EOExpressionProp =
    Prop (key_name: string) (prop_value: node) (is_method: bool)
         (prop_computed: "bool option") (prop_comments: "string list option")

fun node_type :: "node \<Rightarrow> string" where
  "node_type (ObjectExpression ps) = ''ObjectExpression''"
| "node_type (ArrayExpression xs) = ''ArrayExpression''"
| "node_type (FunctionExpression b) = ''FunctionExpression''"
| "node_type (CallExpression c xs) = ''CallExpression''"
| "node_type (Identifier x) = ''Identifier''"
| "node_type (Literal l) = ''Literal''"
| "node_type (OtherNode t) = t"

section \<open>Runtime data (runtime-data.ts)\<close>

text \<open>
  Every field of \<^verbatim>\<open>RuntimeData\<close> is optional. A \<^verbatim>\<open>Record<string, Array<...>>\<close> is a
  map from property names to argument lists.
\<close>

record RuntimeData =
  rd_type :: "string option"
  computedProperties :: "string list option"
  offProperties :: "(string \<rightharpoonup> literal list) option"
  overriddenActions :: "string list option"
  overriddenProperties :: "string list option"
  unobservedProperties :: "(string \<rightharpoonup> literal list) option"

section \<open>The property model's base class (eo-prop/private/abstract.ts)\<close>

text \<open>
  A decorator descriptor (\<^verbatim>\<open>DecoratorImportInfo\<close>): the helpers read its \<^verbatim>\<open>name\<close>, test
  whether it has an \<^verbatim>\<open>args\<close> key, and read \<^verbatim>\<open>isMetaDecorator\<close>.
\<close>

record DecoratorImportInfo =
  name :: string
  args :: "literal list option"
  isMetaDecorator :: "bool option"

record EODecoratorArgs =
  unobserves :: "literal list option"
  off :: "literal list option"

record AbstractEOProp =
  rawProp :: EOExpressionProp
  decorators :: "DecoratorImportInfo list"
  decoratorArgs :: EODecoratorArgs
  isComputed :: "bool option"
  isOverridden :: "bool option"
  runtimeType :: "string option"

text \<open>The field initialisers of the class: what an instance holds before the constructor's body runs.\<close>

definition initial :: "EOExpressionProp \<Rightarrow> AbstractEOProp" where
  "initial eoProp =
     \<lparr> rawProp = eoProp, decorators = [],
       decoratorArgs = \<lparr> unobserves = None, off = None \<rparr>,
       isComputed = None, isOverridden = None, runtimeType = None \<rparr>"

text \<open>\<^verbatim>\<open>{ name: 'unobserves' }\<close>: a descriptor with a name and nothing else.\<close>

definition named :: "string \<Rightarrow> DecoratorImportInfo" where
  "named n = \<lparr> name = n, args = None, isMetaDecorator = None \<rparr>"

text \<open>Destructuring with a default: \<^verbatim>\<open>const { field = dflt } = runtimeData\<close>.\<close>

definition or_default :: "'a option \<Rightarrow> 'a \<Rightarrow> 'a" where
  "or_default v dflt = (case v of None \<Rightarrow> dflt | Some x \<Rightarrow> x)"

text \<open>
  \<^verbatim>\<open>name in record\<close> holds for the keys of the record itself and for the keys every
  object inherits from \<^verbatim>\<open>Object.prototype\<close>. Reading an inherited key gives a function of
  the prototype, not an argument list; the model reads \<open>None\<close> there.
\<close>

definition objectPrototypeKeys :: "string list" where
  "objectPrototypeKeys =
     [''constructor'', ''__defineGetter__'', ''__defineSetter__'', ''hasOwnProperty'',
      ''__lookupGetter__'', ''__lookupSetter__'', ''isPrototypeOf'', ''propertyIsEnumerable'',
      ''toString'', ''valueOf'', ''__proto__'', ''toLocaleString'']"

definition js_in :: "string \<Rightarrow> (string \<rightharpoonup> 'v) \<Rightarrow> bool" where
  "js_in k r = (r k \<noteq> None \<or> k \<in> set objectPrototypeKeys)"

text \<open>
  The body of the constructor under \<^verbatim>\<open>if (runtimeData?.type)\<close>, for the type tag \<open>ty\<close>:
  the four tests on the property's name, in the order of the source.
\<close>

definition merge_runtime :: "AbstractEOProp \<Rightarrow> RuntimeData \<Rightarrow> string \<Rightarrow> AbstractEOProp" where
  "merge_runtime this rd ty =
     (let computedProps = or_default (computedProperties rd) [];
          offProps = or_default (offProperties rd) Map.empty;
          overriddenProps = or_default (overriddenProperties rd) [];
          unobservedProps = or_default (unobservedProperties rd) Map.empty;
          nm = key_name (rawProp this);
          this1 = (if js_in nm unobservedProps
                   then this \<lparr> decorators := decorators this @ [named ''unobserves''],
                               decoratorArgs := (decoratorArgs this) \<lparr> unobserves := unobservedProps nm \<rparr> \<rparr>
                   else this);
          this2 = (if js_in nm offProps
                   then this1 \<lparr> decorators := decorators this1 @ [named ''off''],
                                decoratorArgs := (decoratorArgs this1) \<lparr> off := offProps nm \<rparr> \<rparr>
                   else this1);
          this3 = (if nm \<in> set computedProps then this2 \<lparr> isComputed := Some True \<rparr> else this2)
      in this3 \<lparr> isOverridden := Some (nm \<in> set overriddenProps), runtimeType := Some ty \<rparr>)"

text \<open>
  \<^verbatim>\<open>runtimeData?.type\<close> is truthy when the runtime data is given, has a type tag, and the
  tag is not the empty string.
\<close>

definition AbstractEOProp_new :: "EOExpressionProp \<Rightarrow> RuntimeData option \<Rightarrow> AbstractEOProp" where
  "AbstractEOProp_new eoProp runtimeData =
     (case runtimeData of
        None \<Rightarrow> initial eoProp
      | Some rd \<Rightarrow>
          (case rd_type rd of
             None \<Rightarrow> initial eoProp
           | Some ty \<Rightarrow> if ty = [] then initial eoProp else merge_runtime (initial eoProp) rd ty))"

text \<open>The getters of the class.\<close>

definition name_of :: "('a AbstractEOProp_scheme) \<Rightarrow> string" where
  "name_of this = key_name (rawProp this)"

definition hasRuntimeData :: "('a AbstractEOProp_scheme) \<Rightarrow> bool" where
  "hasRuntimeData this = (case runtimeType this of None \<Rightarrow> False | Some t \<Rightarrow> t \<noteq> [])"

definition decoratorNames :: "('a AbstractEOProp_scheme) \<Rightarrow> string list" where
  "decoratorNames this = map name (decorators this)"

definition hasDecorators :: "('a AbstractEOProp_scheme) \<Rightarrow> bool" where
  "hasDecorators this = (length (decorators this) > 0)"

definition hasUnobservesDecorator :: "('a AbstractEOProp_scheme) \<Rightarrow> bool" where
  "hasUnobservesDecorator this = (''unobserves'' \<in> set (decoratorNames this))"

definition hasOffDecorator :: "('a AbstractEOProp_scheme) \<Rightarrow> bool" where
  "hasOffDecorator this = (''off'' \<in> set (decoratorNames this))"

definition hasMetaDecorator :: "('a AbstractEOProp_scheme) \<Rightarrow> bool" where
  "hasMetaDecorator this = (\<exists>d \<in> set (decorators this). isMetaDecorator d = Some True)"

section \<open>Property models (eo-prop/index.ts)\<close>

text \<open>The concrete classes of the property models.\<close>

datatype eo_class =
    EOActionsProp
  | EOSimpleProp
  | EOComputedFunctionExpressionProp
  | EOComputedObjectExpressionProp
  | EODecoratedProp
  | EOFunctionExpressionProp
  | EOMethodProp
  | EOClassDecorator

text \<open>The options, as far as the models read them: the \<^verbatim>\<open>classFields\<close> flag.\<close>

record Options =
  classFields :: bool

text \<open>
  An emitted decorator node: \<^verbatim>\<open>createDecoratorWithArgs(name, args)\<close> builds one from a name
  and an argument list.
\<close>

datatype Decorator = DecoratorNode (decorator_name: string) (decorator_args: "literal list")

definition createDecoratorWithArgs :: "string \<Rightarrow> literal list \<Rightarrow> Decorator" where
  "createDecoratorWithArgs decoratorName as = DecoratorNode decoratorName as"

text \<open>
  What the getters of a class-decorator model return (\<^verbatim>\<open>isClassNames\<close>, ...). The class is
  not part of the modelled sources, so the values are taken as given with the instance; the
  helpers read them for instances of \<open>EOClassDecorator\<close> only.
\<close>

record ClassDecoratorGetters =
  isClassNames :: bool
  isClassNameBindings :: bool
  isAttributeBindings :: bool
  isLayoutDecorator :: bool
  isTemplateLayoutDecorator :: bool
  isTagName :: bool

text \<open>
  A property model as the helpers of \<^verbatim>\<open>ember-object.ts\<close> see it: the state that the
  constructor of the base class above sets, the class the model is an instance of, and the
  getters of a class-decorator model.
\<close>

record EOProp = AbstractEOProp +
  cls :: eo_class
  classDecorator :: ClassDecoratorGetters

definition no_class_decorator :: ClassDecoratorGetters where
  "no_class_decorator =
     \<lparr> isClassNames = False, isClassNameBindings = False, isAttributeBindings = False,
       isLayoutDecorator = False, isTemplateLayoutDecorator = False, isTagName = False \<rparr>"

text \<open>\<^verbatim>\<open>new C(eoProp, runtimeData)\<close> for a class \<open>c\<close> that inherits the constructor above.\<close>

definition EOProp_new ::
  "eo_class \<Rightarrow> EOExpressionProp \<Rightarrow> RuntimeData option \<Rightarrow> ClassDecoratorGetters \<Rightarrow> EOProp" where
  "EOProp_new c eoProp runtimeData getters =
     AbstractEOProp.extend (AbstractEOProp_new eoProp runtimeData) (EOProp.fields c getters)"

definition instanceof :: "EOProp \<Rightarrow> eo_class \<Rightarrow> bool" where
  "instanceof p c = (cls p = c)"

section \<open>Simple properties (eo-prop/private/simple.ts)\<close>

text \<open>
  \<^verbatim>\<open>simple.ts\<close> is written for a later revision of the base class than the one above: it
  reads \<^verbatim>\<open>rawProp\<close>, \<^verbatim>\<open>options\<close> and \<^verbatim>\<open>existingDecorators\<close> (which may be
  \<^verbatim>\<open>null\<close>), expects the argument list of a decorator in its descriptor, and is constructed
  as \<^verbatim>\<open>new EOSimpleProp(eoProp, options)\<close>. The state of a simple property is the state of
  the base class with these two members.
\<close>

record SimpleProp = AbstractEOProp +
  options :: Options
  existingDecorators :: "Decorator list option"

text \<open>
  Modelled from the spec: the decorator synthesis of the base class that \<^verbatim>\<open>simple.ts\<close>
  extends, whose revision of \<^verbatim>\<open>eo-prop/private/abstract.ts\<close> is not part of the modelled
  sources (section 4.3): a name in the unobserved-properties map appends an
  \<^verbatim>\<open>unobserves\<close> decorator with that entry's argument list, a name in the off-properties
  map an \<^verbatim>\<open>off\<close> decorator with that entry's argument list, a name among the computed
  properties marks \<open>isComputed\<close>, a name among the overridden properties marks
  \<open>isOverridden\<close>, and the type tag is recorded as the runtime type.
\<close>

definition with_args :: "string \<Rightarrow> literal list \<Rightarrow> DecoratorImportInfo" where
  "with_args n as = \<lparr> name = n, args = Some as, isMetaDecorator = None \<rparr>"

definition synthesize :: "AbstractEOProp \<Rightarrow> RuntimeData \<Rightarrow> string \<Rightarrow> AbstractEOProp" where
  "synthesize this rd ty =
     (let nm = key_name (rawProp this);
          this1 = (case or_default (unobservedProperties rd) Map.empty nm of
                     Some as \<Rightarrow> this \<lparr> decorators := decorators this @ [with_args ''unobserves'' as] \<rparr>
                   | None \<Rightarrow> this);
          this2 = (case or_default (offProperties rd) Map.empty nm of
                     Some as \<Rightarrow> this1 \<lparr> decorators := decorators this1 @ [with_args ''off'' as] \<rparr>
                   | None \<Rightarrow> this1);
          this3 = (if nm \<in> set (or_default (computedProperties rd) [])
                   then this2 \<lparr> isComputed := Some True \<rparr> else this2);
          this4 = (if nm \<in> set (or_default (overriddenProperties rd) [])
                   then this3 \<lparr> isOverridden := Some True \<rparr> else this3)
      in this4 \<lparr> runtimeType := Some ty \<rparr>)"

text \<open>
  Modelled from the spec: the constructor of a simple property,
  \<^verbatim>\<open>new EOSimpleProp(eoProp, options)\<close>, whose base class is not part of the modelled sources
  (sections 4.3 and 6): the runtime metadata, which comes with the options, is merged by
  the synthesis above when it has a type tag, and is ignored when it is absent or has
  none (an empty tag counts as none, as in the constructor above); the decorators already
  on the declaration are kept as \<open>existingDecorators\<close>.
\<close>

definition SimpleProp_new ::
  "EOExpressionProp \<Rightarrow> RuntimeData option \<Rightarrow> Options \<Rightarrow> Decorator list option \<Rightarrow> SimpleProp" where
  "SimpleProp_new eoProp runtimeData opts existing =
     AbstractEOProp.extend
       (case runtimeData of
          None \<Rightarrow> initial eoProp
        | Some rd \<Rightarrow>
            (case rd_type rd of
               None \<Rightarrow> initial eoProp
             | Some ty \<Rightarrow> if ty = [] then initial eoProp else synthesize (initial eoProp) rd ty))
       (SimpleProp.fields opts existing)"

record ClassProperty =
  cp_key :: string
  cp_value :: "node option"
  cp_comments :: "string list option"
  cp_computed :: bool
  cp_decorators :: "Decorator list"

text \<open>\<^verbatim>\<open>value = this.rawProp.value\<close> and the getter \<^verbatim>\<open>type\<close> of the base class.\<close>

definition value_of :: "('a AbstractEOProp_scheme) \<Rightarrow> node" where
  "value_of this = prop_value (rawProp this)"

definition type_of :: "('a AbstractEOProp_scheme) \<Rightarrow> string" where
  "type_of this = node_type (value_of this)"

text \<open>
  The loop of \<^verbatim>\<open>buildDecorators\<close>: a descriptor with an \<^verbatim>\<open>args\<close> key becomes a decorator
  node; any other is skipped and logged (\<^verbatim>\<open>logger.info\<close>). The log is returned with the
  decorators.
\<close>

definition ignored_message :: "string \<Rightarrow> string \<Rightarrow> string" where
  "ignored_message nm decoratorName = ''['' @ nm @ ''] Ignored decorator '' @ decoratorName"

fun collect_decorators ::
  "string \<Rightarrow> DecoratorImportInfo list \<Rightarrow> Decorator list \<Rightarrow> string list \<Rightarrow> Decorator list \<times> string list" where
  "collect_decorators nm [] acc logged = (acc, logged)"
| "collect_decorators nm (d # ds) acc logged =
     (case args d of
        Some as \<Rightarrow> collect_decorators nm ds (acc @ [createDecoratorWithArgs (name d) as]) logged
      | None \<Rightarrow> collect_decorators nm ds acc (logged @ [ignored_message nm (name d)]))"

definition buildDecorators :: "SimpleProp \<Rightarrow> Decorator list \<times> string list" where
  "buildDecorators this =
     (case collect_decorators (name_of this) (decorators this) [] [] of
        (ds, logged) \<Rightarrow> (or_default (existingDecorators this) [] @ ds, logged))"

text \<open>\<^verbatim>\<open>build\<close> returns the class property; the log of \<^verbatim>\<open>buildDecorators\<close> comes with it.\<close>

definition build :: "SimpleProp \<Rightarrow> ClassProperty \<times> string list" where
  "build this =
     (case buildDecorators this of
        (ds, logged) \<Rightarrow>
          (\<lparr> cp_key = key_name (rawProp this),
             cp_value = (if hasDecorators this then None else Some (value_of this)),
             cp_comments = prop_comments (rawProp this),
             cp_computed = or_default (prop_computed (rawProp this)) False,
             cp_decorators = ds \<rparr>, logged))"

definition apostrophe :: char where
  "apostrophe = CHR 0x27"

definition need_class_fields :: string where
  "need_class_fields = ''need option '' @ [apostrophe] @ ''--class-fields=true'' @ [apostrophe]"

definition value_is_object :: string where
  "value_is_object =
     ''value is of type object. For more details: eslint-plugin-ember/avoid-leaking-state-in-ember-objects''"

text \<open>
  \<^verbatim>\<open>typeErrors\<close>. The method \<^verbatim>\<open>makeError\<close> of the base class is not part of the
  modelled sources: it is the parameter \<open>makeError\<close>, applied to the instance and the message.
\<close>

definition typeErrors :: "(SimpleProp \<Rightarrow> string \<Rightarrow> string) \<Rightarrow> SimpleProp \<Rightarrow> string list" where
  "typeErrors makeError this =
     (let errors = [];
          errors1 = (if \<not> classFields (options this)
                     then errors @ [makeError this need_class_fields] else errors);
          errors2 = (if (type_of this = ''ObjectExpression'' \<or> type_of this = ''ArrayExpression'')
                        \<and> name_of this \<noteq> ''queryParams''
                     then errors1 @ [makeError this value_is_object] else errors1)
      in errors2)"

section \<open>The classifier (eo-prop/index.ts)\<close>

text \<open>
  The type predicates that \<^verbatim>\<open>makeEOProp\<close> imports from \<^verbatim>\<open>../ast\<close> are not part of the
  modelled sources; the classifier takes them as a parameter.
\<close>

record guards =
  isEOPropertyWithCallExpression :: "EOExpressionProp \<Rightarrow> bool"
  isEOMethod :: "EOExpressionProp \<Rightarrow> bool"
  isEOPropertyWithFunctionExpression :: "EOExpressionProp \<Rightarrow> bool"
  isEOPropertyForClassDecorator :: "EOExpressionProp \<Rightarrow> bool"
  isEOPropertyForActionsObject :: "EOExpressionProp \<Rightarrow> bool"
  isEOPropertySimple :: "EOExpressionProp \<Rightarrow> bool"

text \<open>\<^verbatim>\<open>new C(eoProp, options)\<close>: the class instantiated and the arguments it is given.\<close>

datatype eo_instance = New eo_class EOExpressionProp Options

datatype error = AssertionError

text \<open>
  \<^verbatim>\<open>makeEOProp\<close>. The factory \<^verbatim>\<open>makeEOCallExpressionProp\<close> is the parameter \<open>factory\<close>;
  \<^verbatim>\<open>assert\<close> throws when its argument is false.
\<close>

definition makeEOProp ::
  "guards \<Rightarrow> (EOExpressionProp \<Rightarrow> 'm \<Rightarrow> Options \<Rightarrow> eo_instance) \<Rightarrow>
   EOExpressionProp \<Rightarrow> 'm \<Rightarrow> Options \<Rightarrow> error + eo_instance" where
  "makeEOProp g factory eoProp existingDecoratorImportInfos opts =
     (if isEOPropertyWithCallExpression g eoProp
        then Inr (factory eoProp existingDecoratorImportInfos opts)
      else if isEOMethod g eoProp then Inr (New EOMethodProp eoProp opts)
      else if isEOPropertyWithFunctionExpression g eoProp
        then Inr (New EOFunctionExpressionProp eoProp opts)
      else if isEOPropertyForClassDecorator g eoProp then Inr (New EOClassDecorator eoProp opts)
      else if isEOPropertyForActionsObject g eoProp then Inr (New EOActionsProp eoProp opts)
      else if isEOPropertySimple g eoProp then Inr (New EOSimpleProp eoProp opts)
      else Inl AssertionError)"

text \<open>
  Modelled from the spec: the type predicates of \<^verbatim>\<open>../ast\<close>, which are not part of the
  modelled sources, after the shapes of the decision table (section 4.1): a call-expression
  value, a method-style function, a plain function expression, one of the class-level
  behaviour names, the key \<^verbatim>\<open>actions\<close> with an object map, and otherwise a simple
  property.
\<close>

definition classDecoratorNames :: "string list" where
  "classDecoratorNames =
     [''tagName'', ''classNames'', ''classNameBindings'', ''attributeBindings'', ''layout'']"

definition ast_guards :: guards where
  "ast_guards =
     \<lparr> isEOPropertyWithCallExpression =
         (\<lambda>p. \<not> is_method p \<and> node_type (prop_value p) = ''CallExpression''),
       isEOMethod = (\<lambda>p. is_method p),
       isEOPropertyWithFunctionExpression =
         (\<lambda>p. \<not> is_method p \<and> node_type (prop_value p) = ''FunctionExpression''),
       isEOPropertyForClassDecorator =
         (\<lambda>p. \<not> is_method p \<and> key_name p \<in> set classDecoratorNames),
       isEOPropertyForActionsObject =
         (\<lambda>p. \<not> is_method p \<and> key_name p = ''actions''
               \<and> node_type (prop_value p) = ''ObjectExpression''),
       isEOPropertySimple =
         (\<lambda>p. \<not> is_method p
               \<and> node_type (prop_value p) \<noteq> ''CallExpression''
               \<and> node_type (prop_value p) \<noteq> ''FunctionExpression''
               \<and> key_name p \<notin> set classDecoratorNames
               \<and> \<not> (key_name p = ''actions'' \<and> node_type (prop_value p) = ''ObjectExpression'')) \<rparr>"

section \<open>Actions objects\<close>

text \<open>
  Modelled from the spec: the expansion of an actions object, whose class
  (\<^verbatim>\<open>private/actions\<close>) is not part of the modelled sources (section 4.4): one method per
  entry of the object map, in order, each carrying the \<^verbatim>\<open>action\<close> annotation; an entry
  whose value is not a function is a validation error on that entry, and the remaining
  entries are still processed.
\<close>

record ClassMethod =
  m_key :: string
  m_body :: node
  m_decorators :: "Decorator list"

text \<open>The entries of an object map; a value that is no object expression has none.\<close>

definition object_properties :: "node \<Rightarrow> EOExpressionProp list" where
  "object_properties n = (case n of ObjectExpression ps \<Rightarrow> ps | _ \<Rightarrow> [])"

text \<open>
  Modelled from the spec: a function-valued entry of \<^verbatim>\<open>private/actions\<close>, either the
  method shorthand or a function expression as the value.
\<close>

definition is_function_entry :: "EOExpressionProp \<Rightarrow> bool" where
  "is_function_entry e = (is_method e \<or> node_type (prop_value e) = ''FunctionExpression'')"

text \<open>
  Modelled from the spec: the member of \<^verbatim>\<open>private/actions\<close> for one entry, a method with
  the \<^verbatim>\<open>action\<close> annotation, or the validation error for the entry (its name).
\<close>

definition action_entry :: "EOExpressionProp \<Rightarrow> string + ClassMethod" where
  "action_entry e =
     (if is_function_entry e
      then Inr \<lparr> m_key = key_name e, m_body = prop_value e,
                 m_decorators = [createDecoratorWithArgs ''action'' []] \<rparr>
      else Inl (key_name e))"

text \<open>
  Modelled from the spec: the expansion of \<^verbatim>\<open>private/actions\<close>, entry by entry, and the
  methods among its results.
\<close>

definition expand_actions :: "EOProp \<Rightarrow> (string + ClassMethod) list" where
  "expand_actions this = map action_entry (object_properties (value_of this))"

definition action_methods :: "EOProp \<Rightarrow> ClassMethod list" where
  "action_methods this = [m. Inr m \<leftarrow> expand_actions this]"

section \<open>Helpers on the object expression (ember-object.ts)\<close>

record DecoratorImportSpecs =
  action :: bool
  classNames :: bool
  classNameBindings :: bool
  attributeBindings :: bool
  layout :: bool
  templateLayout :: bool
  off_spec :: bool
  tagName :: bool
  unobserves_spec :: bool

text \<open>
  One pass of the loop of \<^verbatim>\<open>getDecoratorsToImportSpecs\<close>: the new record built from the
  old one and one property model. The fields \<^verbatim>\<open>off\<close> and \<^verbatim>\<open>unobserves\<close> are
  \<open>off_spec\<close> and \<open>unobserves_spec\<close> here. The helper imports the actions class and the
  class-decorator class as \<^verbatim>\<open>EOActionsObjectProp\<close> and \<^verbatim>\<open>EOClassDecoratorProp\<close>; they
  are \<open>EOActionsProp\<close> and \<open>EOClassDecorator\<close> of the classifier.
\<close>

definition import_step :: "DecoratorImportSpecs \<Rightarrow> EOProp \<Rightarrow> DecoratorImportSpecs" where
  "import_step specs p =
     \<lparr> action = (action specs \<or> instanceof p EOActionsProp),
       classNames =
         (classNames specs \<or> (instanceof p EOClassDecorator \<and> isClassNames (classDecorator p))),
       classNameBindings =
         (classNameBindings specs
          \<or> (instanceof p EOClassDecorator \<and> isClassNameBindings (classDecorator p))),
       attributeBindings =
         (attributeBindings specs
          \<or> (instanceof p EOClassDecorator \<and> isAttributeBindings (classDecorator p))),
       layout =
         (layout specs \<or> (instanceof p EOClassDecorator \<and> isLayoutDecorator (classDecorator p))),
       templateLayout =
         (templateLayout specs
          \<or> (instanceof p EOClassDecorator \<and> isTemplateLayoutDecorator (classDecorator p))),
       off_spec = (off_spec specs \<or> hasOffDecorator p),
       tagName = (tagName specs \<or> (instanceof p EOClassDecorator \<and> isTagName (classDecorator p))),
       unobserves_spec = (unobserves_spec specs \<or> hasUnobservesDecorator p) \<rparr>"

fun getDecoratorsToImportSpecs :: "EOProp list \<Rightarrow> DecoratorImportSpecs \<Rightarrow> DecoratorImportSpecs" where
  "getDecoratorsToImportSpecs [] specs = specs"
| "getDecoratorsToImportSpecs (p # instanceProps) specs =
     getDecoratorsToImportSpecs instanceProps (import_step specs p)"

definition isObjectExpression :: "node \<Rightarrow> bool" where
  "isObjectExpression n = (node_type n = ''ObjectExpression'')"

text \<open>
  \<^verbatim>\<open>parseEmberObjectCallExpression\<close>: the loop over the arguments of the call, then the
  function on the call expression.
\<close>

record EOCallExpressionProps =
  eoExpression :: "node option"
  mixins :: "node list"

fun parse_arguments :: "node list \<Rightarrow> EOCallExpressionProps \<Rightarrow> EOCallExpressionProps" where
  "parse_arguments [] props = props"
| "parse_arguments (callExpressionArg # rest) props =
     parse_arguments rest
       (if node_type callExpressionArg = ''ObjectExpression''
        then props \<lparr> eoExpression := Some callExpressionArg \<rparr>
        else props \<lparr> mixins := mixins props @ [callExpressionArg] \<rparr>)"

fun parseEmberObjectCallExpression :: "node \<Rightarrow> EOCallExpressionProps" where
  "parseEmberObjectCallExpression (CallExpression callee callExpressionArgs) =
     parse_arguments callExpressionArgs \<lparr> eoExpression = None, mixins = [] \<rparr>"

text \<open>
  Field-wise disjunction of two import-spec records, and the record with every field false:
  the operation and the unit that the loop above folds with.
\<close>

definition or_specs :: "DecoratorImportSpecs \<Rightarrow> DecoratorImportSpecs \<Rightarrow> DecoratorImportSpecs" where
  "or_specs a b =
     \<lparr> action = (action a \<or> action b),
       classNames = (classNames a \<or> classNames b),
       classNameBindings = (classNameBindings a \<or> classNameBindings b),
       attributeBindings = (attributeBindings a \<or> attributeBindings b),
       layout = (layout a \<or> layout b),
       templateLayout = (templateLayout a \<or> templateLayout b),
       off_spec = (off_spec a \<or> off_spec b),
       tagName = (tagName a \<or> tagName b),
       unobserves_spec = (unobserves_spec a \<or> unobserves_spec b) \<rparr>"

definition no_specs :: DecoratorImportSpecs where
  "no_specs =
     \<lparr> action = False, classNames = False, classNameBindings = False, attributeBindings = False,
       layout = False, templateLayout = False, off_spec = False, tagName = False,
       unobserves_spec = False \<rparr>"

text \<open>What one property model adds to the record: one pass of the loop from the unit.\<close>

definition contribution :: "EOProp \<Rightarrow> DecoratorImportSpecs" where
  "contribution p = import_step no_specs p"

section \<open>The transform (transforms/ember-object/index.ts)\<close>

text \<open>
  \<^verbatim>\<open>toLowerCase\<close> on the ASCII letters; other characters stay as they are. No character
  outside ASCII has \<^verbatim>\<open>j\<close>, \<^verbatim>\<open>s\<close>, \<^verbatim>\<open>t\<close> or the dot as its lower case, so the
  comparison with \<^verbatim>\<open>.js\<close> and \<^verbatim>\<open>.ts\<close> is not affected.
\<close>

definition lower_char :: "char \<Rightarrow> char" where
  "lower_char c =
     (case map_of (zip ''ABCDEFGHIJKLMNOPQRSTUVWXYZ'' ''abcdefghijklmnopqrstuvwxyz'') c of
        Some l \<Rightarrow> l
      | None \<Rightarrow> c)"

definition toLowerCase :: "string \<Rightarrow> string" where
  "toLowerCase s = map lower_char s"

text \<open>
  What the transform calls: \<^verbatim>\<open>path.extname\<close>, the parser \<^verbatim>\<open>j(source)\<close>,
  \<^verbatim>\<open>getConfig()\<close>, \<^verbatim>\<open>maybeTransformEmberObjects\<close> (which rewrites the tree in place and
  tells whether it did) and the printer \<^verbatim>\<open>root.toSource\<close> with the quote option of the
  configuration.
\<close>

record ('ast, 'cfg) collaborators =
  extname :: "string \<Rightarrow> string"
  j_parse :: "string \<Rightarrow> 'ast"
  getConfig :: "'cfg"
  maybeTransformEmberObjects :: "'ast \<Rightarrow> string \<Rightarrow> 'cfg \<Rightarrow> bool \<times> 'ast"
  toSource :: "'ast \<Rightarrow> 'cfg \<Rightarrow> string"

datatype call = Parse | GetConfig | MaybeTransform | ToSource

text \<open>
  The transform returns the new source, or \<^verbatim>\<open>undefined\<close> (\<open>None\<close>); the calls it made
  to the parser, the configuration, the rewriter and the printer are returned with it.
\<close>

definition transformer ::
  "('ast, 'cfg) collaborators \<Rightarrow> string \<Rightarrow> string \<Rightarrow> string option \<times> call list" where
  "transformer env source filePath =
     (let extension = extname env filePath in
      if toLowerCase extension \<notin> set [''.js'', ''.ts''] then (None, [])
      else
        (let root = j_parse env source;
             userOptions = getConfig env
         in case maybeTransformEmberObjects env root filePath userOptions of
              (replaced, root') \<Rightarrow>
                if replaced
                then (Some (toSource env root' userOptions), [Parse, GetConfig, MaybeTransform, ToSource])
                else (Some source, [Parse, GetConfig, MaybeTransform])))"

section \<open>Example data\<close>

definition foo_decl :: EOExpressionProp where
  "foo_decl = Prop ''foo'' (Literal (LNumber 1)) False None None"

text \<open>Runtime data without a type tag whose other fields all name \<^verbatim>\<open>foo\<close>.\<close>

definition rd_untyped :: RuntimeData where
  "rd_untyped =
     \<lparr> rd_type = None, computedProperties = Some [''foo''],
       offProperties = Some [''foo'' \<mapsto> []], overriddenActions = None,
       overriddenProperties = Some [''foo''],
       unobservedProperties = Some [''foo'' \<mapsto> []] \<rparr>"

text \<open>\<^verbatim>\<open>{ type: 'Component', unobservedProperties: { foo: [] } }\<close>\<close>

definition rd_foo :: RuntimeData where
  "rd_foo =
     \<lparr> rd_type = Some ''Component'', computedProperties = None, offProperties = None,
       overriddenActions = None, overriddenProperties = None,
       unobservedProperties = Some [''foo'' \<mapsto> []] \<rparr>"

text \<open>The model of \<^verbatim>\<open>foo: 1\<close> with that runtime data, as the helpers see it.\<close>

definition foo_model :: EOProp where
  "foo_model = EOProp_new EOSimpleProp foo_decl (Some rd_foo) no_class_decorator"

text \<open>The simple property \<^verbatim>\<open>foo: 1\<close> with that runtime data, and without runtime data.\<close>

definition foo_simple :: SimpleProp where
  "foo_simple = SimpleProp_new foo_decl (Some rd_foo) \<lparr> classFields = True \<rparr> None"

definition plain_model :: SimpleProp where
  "plain_model = SimpleProp_new foo_decl None \<lparr> classFields = True \<rparr> None"

text \<open>\<^verbatim>\<open>config: {}\<close> with the class-field option off.\<close>

definition config_decl :: EOExpressionProp where
  "config_decl = Prop ''config'' (ObjectExpression []) False None None"

definition config_model :: SimpleProp where
  "config_model = SimpleProp_new config_decl None \<lparr> classFields = False \<rparr> None"

definition bracket_error :: "SimpleProp \<Rightarrow> string \<Rightarrow> string" where
  "bracket_error this message = ''['' @ name_of this @ '']: '' @ message"

text \<open>\<^verbatim>\<open>actions: {}\<close>: an actions object without entries.\<close>

definition empty_actions_decl :: EOExpressionProp where
  "empty_actions_decl = Prop ''actions'' (ObjectExpression []) False None None"

definition empty_actions_model :: EOProp where
  "empty_actions_model = EOProp_new EOActionsProp empty_actions_decl None no_class_decorator"

text \<open>
  \<^verbatim>\<open>actions: { save: function () {...}, cancel: function () {...} }\<close>, for any two
  function bodies.
\<close>

definition save_cancel_decl :: "string \<Rightarrow> string \<Rightarrow> EOExpressionProp" where
  "save_cancel_decl b1 b2 =
     Prop ''actions''
       (ObjectExpression
          [Prop ''save'' (FunctionExpression b1) False None None,
           Prop ''cancel'' (FunctionExpression b2) False None None])
       False None None"







definition every_spec :: DecoratorImportSpecs where
  "every_spec =
     \<lparr> action = True, classNames = True, classNameBindings = True, attributeBindings = True,
       layout = True, templateLayout = True, off_spec = True, tagName = True,
       unobserves_spec = True \<rparr>"

text \<open>
  An environment for the examples: the extension is the text from the last dot of the last
  path component, empty when there is no dot, when the component starts with its only dot
  or when it is \<^verbatim>\<open>..\<close> (what \<^verbatim>\<open>path.extname\<close> gives for paths that do not end in a
  separator); the parser and the printer are the identity on the text, and nothing is
  rewritten.
\<close>

definition last_component :: "string \<Rightarrow> string" where
  "last_component p = rev (takeWhile (\<lambda>c. c \<noteq> CHR ''/'') (rev p))"

definition dot_suffix :: "string \<Rightarrow> string" where
  "dot_suffix p =
     (let b = last_component p;
          r = takeWhile (\<lambda>c. c \<noteq> CHR ''.'') (rev b)
      in if length r = length b \<or> Suc (length r) = length b \<or> b = ''..'' then []
         else CHR ''.'' # rev r)"

definition example_env :: "(string, unit) collaborators" where
  "example_env =
     \<lparr> extname = dot_suffix, j_parse = (\<lambda>src. src), getConfig = (),
       maybeTransformEmberObjects = (\<lambda>root filePath cfg. (False, root)),
       toSource = (\<lambda>root cfg. root) \<rparr>"

section \<open>Runtime data without a type tag\<close>

lemma AbstractEOProp_new_untyped:
  "rd_type rd = None \<Longrightarrow> AbstractEOProp_new eoProp (Some rd) = initial eoProp"
  by (simp add: AbstractEOProp_new_def)

text \<open>
  C7. A property model constructed with runtime data that has no type tag is the model
  constructed without runtime data, whatever the other fields of the runtime data hold: no
  decorator and no decorator argument is recorded, \<open>isComputed\<close> and \<open>isOverridden\<close> stay
  undefined, and \<open>hasRuntimeData\<close>, \<open>hasDecorators\<close>, \<open>hasUnobservesDecorator\<close> and
  \<open>hasOffDecorator\<close> are false.
\<close>

theorem untyped_runtime_data_is_ignored:
  assumes "rd_type rd = None"
  shows "AbstractEOProp_new eoProp (Some rd) = AbstractEOProp_new eoProp None
       \<and> decorators (AbstractEOProp_new eoProp (Some rd)) = []
       \<and> decoratorArgs (AbstractEOProp_new eoProp (Some rd)) = \<lparr> unobserves = None, off = None \<rparr>
       \<and> isComputed (AbstractEOProp_new eoProp (Some rd)) = None
       \<and> isOverridden (AbstractEOProp_new eoProp (Some rd)) = None
       \<and> \<not> hasRuntimeData (AbstractEOProp_new eoProp (Some rd))
       \<and> \<not> hasDecorators (AbstractEOProp_new eoProp (Some rd))
       \<and> \<not> hasUnobservesDecorator (AbstractEOProp_new eoProp (Some rd))
       \<and> \<not> hasOffDecorator (AbstractEOProp_new eoProp (Some rd))"
  using assms
  by (simp add: AbstractEOProp_new_def initial_def hasRuntimeData_def hasDecorators_def
      hasUnobservesDecorator_def hasOffDecorator_def decoratorNames_def)

theorem untyped_runtime_data_is_ignored_witness:
  "(rd_type rd_untyped = None
    \<and> computedProperties rd_untyped = Some [''foo'']
    \<and> overriddenProperties rd_untyped = Some [''foo''])
   \<and> (AbstractEOProp_new foo_decl (Some rd_untyped) = AbstractEOProp_new foo_decl None
       \<and> decorators (AbstractEOProp_new foo_decl (Some rd_untyped)) = []
       \<and> decoratorArgs (AbstractEOProp_new foo_decl (Some rd_untyped)) = \<lparr> unobserves = None, off = None \<rparr>
       \<and> isComputed (AbstractEOProp_new foo_decl (Some rd_untyped)) = None
       \<and> isOverridden (AbstractEOProp_new foo_decl (Some rd_untyped)) = None
       \<and> \<not> hasRuntimeData (AbstractEOProp_new foo_decl (Some rd_untyped))
       \<and> \<not> hasDecorators (AbstractEOProp_new foo_decl (Some rd_untyped))
       \<and> \<not> hasUnobservesDecorator (AbstractEOProp_new foo_decl (Some rd_untyped))
       \<and> \<not> hasOffDecorator (AbstractEOProp_new foo_decl (Some rd_untyped)))"
proof -
  have h: "rd_type rd_untyped = None"
    by (simp add: rd_untyped_def)
  have given: "rd_type rd_untyped = None
      \<and> computedProperties rd_untyped = Some [''foo'']
      \<and> overriddenProperties rd_untyped = Some [''foo'']"
    by (simp add: rd_untyped_def)
  show ?thesis
    using given untyped_runtime_data_is_ignored [OF h, of foo_decl] by (rule conjI)
qed

section \<open>Runtime data that names the property\<close>

lemma foo_model_eq:
  "foo_model =
     \<lparr> rawProp = foo_decl, decorators = [named ''unobserves''],
       decoratorArgs = \<lparr> unobserves = Some [], off = None \<rparr>, isComputed = None,
       isOverridden = Some False, runtimeType = Some ''Component'', cls = EOSimpleProp,
       classDecorator = no_class_decorator \<rparr>"
  by (simp add: foo_model_def EOProp_new_def AbstractEOProp_new_def rd_foo_def merge_runtime_def
      initial_def or_default_def foo_decl_def AbstractEOProp.extend_def EOProp.fields_def Let_def
      js_in_def objectPrototypeKeys_def)






section \<open>Building a simple property\<close>

lemma foo_simple_decorators: "decorators foo_simple = [with_args ''unobserves'' []]"
  by (simp add: foo_simple_def SimpleProp_new_def AbstractEOProp.extend_def SimpleProp.fields_def
      initial_def synthesize_def Let_def rd_foo_def foo_decl_def or_default_def)

lemma plain_model_eq:
  "plain_model =
     \<lparr> rawProp = foo_decl, decorators = [],
       decoratorArgs = \<lparr> unobserves = None, off = None \<rparr>, isComputed = None,
       isOverridden = None, runtimeType = None,
       options = \<lparr> classFields = True \<rparr>, existingDecorators = None \<rparr>"
  by (simp add: plain_model_def SimpleProp_new_def
      initial_def AbstractEOProp.extend_def SimpleProp.fields_def)

lemma config_model_eq:
  "config_model =
     \<lparr> rawProp = config_decl, decorators = [],
       decoratorArgs = \<lparr> unobserves = None, off = None \<rparr>, isComputed = None,
       isOverridden = None, runtimeType = None,
       options = \<lparr> classFields = False \<rparr>, existingDecorators = None \<rparr>"
  by (simp add: config_model_def SimpleProp_new_def
      initial_def AbstractEOProp.extend_def SimpleProp.fields_def)

text \<open>
  C4. The member that \<open>build\<close> returns for a simple property has no value (\<^verbatim>\<open>null\<close>) when
  the model has decorators, and the value of the source declaration when it has none.
\<close>

theorem build_value_follows_hasDecorators:
  "(hasDecorators this \<longrightarrow> cp_value (fst (build this)) = None)
   \<and> (\<not> hasDecorators this \<longrightarrow> cp_value (fst (build this)) = Some (prop_value (rawProp this)))"
  by (simp add: build_def value_of_def split: prod.split)

theorem build_value_follows_hasDecorators_witness:
  "(hasDecorators foo_simple \<and> cp_value (fst (build foo_simple)) = None)
   \<and> (\<not> hasDecorators plain_model
      \<and> cp_value (fst (build plain_model)) = Some (Literal (LNumber 1)))"
proof -
  have a: "hasDecorators foo_simple"
    by (simp add: foo_simple_decorators hasDecorators_def)
  have b: "\<not> hasDecorators plain_model"
    by (simp add: plain_model_eq hasDecorators_def)
  have c: "prop_value (rawProp plain_model) = Literal (LNumber 1)"
    by (simp add: plain_model_eq foo_decl_def)
  show ?thesis
    using a b c build_value_follows_hasDecorators [of foo_simple]
      build_value_follows_hasDecorators [of plain_model]
    by simp
qed

text \<open>
  C6. For a model whose options have the class-field flag off and whose declaration has an
  object literal as its value and a name other than \<^verbatim>\<open>queryParams\<close> (such as
  \<^verbatim>\<open>config\<close>), \<open>typeErrors\<close> is the two-element list of the error for the missing
  option \<^verbatim>\<open>--class-fields=true\<close> and the error for the object value, so it is not empty
  and contains the former; \<open>build\<close> returns the same member as with the flag on, namely the
  class property with the declaration's key, value, comments and computed flag.
\<close>

theorem typeErrors_are_advisory:
  assumes "\<not> classFields (options this)"
    and "prop_value (rawProp this) = ObjectExpression ps"
    and "key_name (rawProp this) \<noteq> ''queryParams''"
  shows "typeErrors makeError this = [makeError this need_class_fields, makeError this value_is_object]
       \<and> typeErrors makeError this \<noteq> []
       \<and> makeError this need_class_fields \<in> set (typeErrors makeError this)
       \<and> build this = build (this \<lparr> options := \<lparr> classFields = True \<rparr> \<rparr>)
       \<and> fst (build this) =
           \<lparr> cp_key = key_name (rawProp this),
             cp_value = (if decorators this = [] then Some (ObjectExpression ps) else None),
             cp_comments = prop_comments (rawProp this),
             cp_computed = (case prop_computed (rawProp this) of None \<Rightarrow> False | Some b \<Rightarrow> b),
             cp_decorators = fst (buildDecorators this) \<rparr>"
  using assms
  by (simp add: typeErrors_def type_of_def value_of_def name_of_def build_def buildDecorators_def
      hasDecorators_def or_default_def split: prod.split)

theorem typeErrors_are_advisory_witness:
  "(\<not> classFields (options config_model)
    \<and> prop_value (rawProp config_model) = ObjectExpression []
    \<and> key_name (rawProp config_model) \<noteq> ''queryParams'')
   \<and> typeErrors bracket_error config_model =
       [''[config]: need option '' @ [apostrophe] @ ''--class-fields=true'' @ [apostrophe],
        ''[config]: value is of type object. For more details: eslint-plugin-ember/avoid-leaking-state-in-ember-objects'']
   \<and> fst (build config_model) =
       \<lparr> cp_key = ''config'', cp_value = Some (ObjectExpression []), cp_comments = None,
         cp_computed = False, cp_decorators = [] \<rparr>"
proof -
  have a: "\<not> classFields (options config_model)"
    by (simp add: config_model_eq)
  have b: "prop_value (rawProp config_model) = ObjectExpression []"
    by (simp add: config_model_eq config_decl_def)
  have c: "key_name (rawProp config_model) \<noteq> ''queryParams''"
    by (simp add: config_model_eq config_decl_def)
  note inst = typeErrors_are_advisory [OF a b c, of bracket_error]
  have e1: "bracket_error config_model need_class_fields =
      ''[config]: need option '' @ [apostrophe] @ ''--class-fields=true'' @ [apostrophe]"
    by (simp add: bracket_error_def name_of_def need_class_fields_def config_model_eq config_decl_def)
  have e2: "bracket_error config_model value_is_object =
      ''[config]: value is of type object. For more details: eslint-plugin-ember/avoid-leaking-state-in-ember-objects''"
    by (simp add: bracket_error_def name_of_def value_is_object_def config_model_eq config_decl_def)
  have errs: "typeErrors bracket_error config_model =
       [''[config]: need option '' @ [apostrophe] @ ''--class-fields=true'' @ [apostrophe],
        ''[config]: value is of type object. For more details: eslint-plugin-ember/avoid-leaking-state-in-ember-objects'']"
    using inst by (simp only: e1 e2)
  have d: "fst (buildDecorators config_model) = []"
    by (simp add: buildDecorators_def config_model_eq or_default_def)
  have k: "key_name (rawProp config_model) = ''config''"
       "decorators config_model = []"
       "prop_comments (rawProp config_model) = None"
       "prop_computed (rawProp config_model) = None"
    by (simp_all add: config_model_eq config_decl_def)
  have member: "fst (build config_model) =
       \<lparr> cp_key = ''config'', cp_value = Some (ObjectExpression []), cp_comments = None,
         cp_computed = False, cp_decorators = [] \<rparr>"
  proof -
    from inst have "fst (build config_model) =
           \<lparr> cp_key = key_name (rawProp config_model),
             cp_value = (if decorators config_model = [] then Some (ObjectExpression []) else None),
             cp_comments = prop_comments (rawProp config_model),
             cp_computed = (case prop_computed (rawProp config_model) of None \<Rightarrow> False | Some b \<Rightarrow> b),
             cp_decorators = fst (buildDecorators config_model) \<rparr>"
      by (elim conjE)
    then show ?thesis
      by (simp add: d k)
  qed
  show ?thesis
    using a b c errs member by blast
qed

section \<open>Parsing the call expression\<close>

lemma parse_arguments_mixins:
  "mixins (parse_arguments as props) = mixins props @ filter (\<lambda>a. \<not> isObjectExpression a) as"
  by (induction as arbitrary: props) (simp_all add: isObjectExpression_def)

lemma parse_arguments_eoExpression:
  "eoExpression (parse_arguments as props) =
     (if filter isObjectExpression as = [] then eoExpression props
      else Some (last (filter isObjectExpression as)))"
  by (induction as arbitrary: props) (simp_all add: isObjectExpression_def)

text \<open>
  C9. \<open>parseEmberObjectCallExpression\<close> returns as \<open>mixins\<close> the arguments that are not
  object expressions, in their original order, and as \<open>eoExpression\<close> the last argument
  that is an object expression (\<^verbatim>\<open>null\<close> when there is none); earlier object expressions
  are in neither.
\<close>

theorem parse_keeps_mixins_and_last_object:
  "parseEmberObjectCallExpression (CallExpression callee as) =
     \<lparr> eoExpression =
         (if filter isObjectExpression as = [] then None
          else Some (last (filter isObjectExpression as))),
       mixins = filter (\<lambda>a. \<not> isObjectExpression a) as \<rparr>"
  by (simp add: parse_arguments_mixins parse_arguments_eoExpression)

section \<open>Files the transform leaves alone\<close>

text \<open>
  C10. When the extension of the file path, in lower case, is neither \<^verbatim>\<open>.js\<close> nor
  \<^verbatim>\<open>.ts\<close>, the transform returns \<^verbatim>\<open>undefined\<close> and calls neither the parser nor the
  configuration, the rewriter or the printer.
\<close>

theorem transformer_skips_other_extensions:
  assumes "toLowerCase (extname env filePath) \<noteq> ''.js''"
    and "toLowerCase (extname env filePath) \<noteq> ''.ts''"
  shows "transformer env source filePath = (None, [])"
  using assms by (simp add: transformer_def)

theorem transformer_skips_other_extensions_witness:
  "(toLowerCase (extname example_env ''docs/README.MD'') = ''.md'')
   \<and> transformer example_env ''# Title'' ''docs/README.MD'' = (None, [])"
proof -
  have e: "toLowerCase (extname example_env ''docs/README.MD'') = ''.md''"
    by (simp add: example_env_def dot_suffix_def last_component_def toLowerCase_def lower_char_def)
  have a: "toLowerCase (extname example_env ''docs/README.MD'') \<noteq> ''.js''"
    by (simp add: e)
  have b: "toLowerCase (extname example_env ''docs/README.MD'') \<noteq> ''.ts''"
    by (simp add: e)
  show ?thesis
    using e transformer_skips_other_extensions [OF a b, of "''# Title''"] by simp
qed

section \<open>Aggregating the decorator imports\<close>

lemma import_step_contribution: "import_step s p = or_specs s (contribution p)"
  by (simp add: import_step_def or_specs_def contribution_def no_specs_def)

lemma or_specs_assoc: "or_specs (or_specs a b) c = or_specs a (or_specs b c)"
  by (simp add: or_specs_def disj_assoc)

lemma or_specs_commute: "or_specs a b = or_specs b a"
  by (rule DecoratorImportSpecs.equality) (auto simp add: or_specs_def)

lemma or_specs_idem: "or_specs a a = a"
  by (rule DecoratorImportSpecs.equality) (simp_all add: or_specs_def)

lemma import_specs_fold:
  "getDecoratorsToImportSpecs ps s = foldl or_specs s (map contribution ps)"
  by (induction ps arbitrary: s) (simp_all add: import_step_contribution)

lemma import_specs_append:
  "getDecoratorsToImportSpecs (ps @ qs) s = getDecoratorsToImportSpecs qs (getDecoratorsToImportSpecs ps s)"
  by (induction ps arbitrary: s) simp_all

lemma import_specs_fields:
  "action (getDecoratorsToImportSpecs ps s) = (action s \<or> (\<exists>p \<in> set ps. instanceof p EOActionsProp))"
  "classNames (getDecoratorsToImportSpecs ps s) =
     (classNames s \<or> (\<exists>p \<in> set ps. instanceof p EOClassDecorator \<and> isClassNames (classDecorator p)))"
  "classNameBindings (getDecoratorsToImportSpecs ps s) =
     (classNameBindings s \<or> (\<exists>p \<in> set ps. instanceof p EOClassDecorator \<and> isClassNameBindings (classDecorator p)))"
  "attributeBindings (getDecoratorsToImportSpecs ps s) =
     (attributeBindings s \<or> (\<exists>p \<in> set ps. instanceof p EOClassDecorator \<and> isAttributeBindings (classDecorator p)))"
  "layout (getDecoratorsToImportSpecs ps s) =
     (layout s \<or> (\<exists>p \<in> set ps. instanceof p EOClassDecorator \<and> isLayoutDecorator (classDecorator p)))"
  "templateLayout (getDecoratorsToImportSpecs ps s) =
     (templateLayout s \<or> (\<exists>p \<in> set ps. instanceof p EOClassDecorator \<and> isTemplateLayoutDecorator (classDecorator p)))"
  "off_spec (getDecoratorsToImportSpecs ps s) = (off_spec s \<or> (\<exists>p \<in> set ps. hasOffDecorator p))"
  "tagName (getDecoratorsToImportSpecs ps s) =
     (tagName s \<or> (\<exists>p \<in> set ps. instanceof p EOClassDecorator \<and> isTagName (classDecorator p)))"
  "unobserves_spec (getDecoratorsToImportSpecs ps s) =
     (unobserves_spec s \<or> (\<exists>p \<in> set ps. hasUnobservesDecorator p))"
  by (induction ps arbitrary: s) (simp_all add: import_step_def disj_assoc)

lemma import_specs_set:
  "set ps = set qs \<Longrightarrow> getDecoratorsToImportSpecs ps s = getDecoratorsToImportSpecs qs s"
  by (rule DecoratorImportSpecs.equality) (simp_all add: import_specs_fields)

lemma import_specs_idem:
  "getDecoratorsToImportSpecs ps (getDecoratorsToImportSpecs ps s) = getDecoratorsToImportSpecs ps s"
  by (rule DecoratorImportSpecs.equality) (auto simp add: import_specs_fields)

lemma import_specs_or:
  "getDecoratorsToImportSpecs ps s = or_specs s (getDecoratorsToImportSpecs ps no_specs)"
  by (rule DecoratorImportSpecs.equality) (simp_all add: import_specs_fields or_specs_def no_specs_def)

lemma empty_actions_model_eq:
  "empty_actions_model =
     \<lparr> rawProp = empty_actions_decl, decorators = [],
       decoratorArgs = \<lparr> unobserves = None, off = None \<rparr>, isComputed = None,
       isOverridden = None, runtimeType = None, cls = EOActionsProp,
       classDecorator = no_class_decorator \<rparr>"
  by (simp add: empty_actions_model_def EOProp_new_def AbstractEOProp_new_def
      initial_def AbstractEOProp.extend_def EOProp.fields_def)

lemma foo_model_contribution:
  "contribution foo_model = no_specs \<lparr> unobserves_spec := True \<rparr>"
  by (simp add: contribution_def import_step_def no_specs_def foo_model_eq instanceof_def
      hasOffDecorator_def hasUnobservesDecorator_def decoratorNames_def named_def)

lemma empty_actions_model_contribution:
  "contribution empty_actions_model = no_specs \<lparr> action := True \<rparr>"
  by (simp add: contribution_def import_step_def no_specs_def empty_actions_model_eq instanceof_def
      hasOffDecorator_def hasUnobservesDecorator_def decoratorNames_def)

text \<open>
  C3. \<open>getDecoratorsToImportSpecs\<close> is the left fold of the field-wise disjunction
  \<open>or_specs\<close> over the contributions of the models, starting from the existing record;
  \<open>or_specs\<close> is associative, commutative and idempotent. Hence aggregating a
  concatenation is aggregating its parts one after the other, or apart and joined; the
  order of the models does not matter, nor does anything but the set of models;
  aggregating the same models again over the result changes nothing; and a field that is
  true in the existing record is true in the result.
\<close>

theorem import_specs_fold_laws:
  "getDecoratorsToImportSpecs ps s = foldl or_specs s (map contribution ps)
   \<and> or_specs (or_specs a b) c = or_specs a (or_specs b c)
   \<and> or_specs a b = or_specs b a
   \<and> or_specs a a = a
   \<and> getDecoratorsToImportSpecs (ps @ qs) s
       = getDecoratorsToImportSpecs qs (getDecoratorsToImportSpecs ps s)
   \<and> getDecoratorsToImportSpecs (ps @ qs) s
       = or_specs (getDecoratorsToImportSpecs ps s) (getDecoratorsToImportSpecs qs no_specs)
   \<and> getDecoratorsToImportSpecs (ps @ qs) s = getDecoratorsToImportSpecs (qs @ ps) s
   \<and> (set ps = set qs \<longrightarrow> getDecoratorsToImportSpecs ps s = getDecoratorsToImportSpecs qs s)
   \<and> getDecoratorsToImportSpecs ps (getDecoratorsToImportSpecs ps s)
       = getDecoratorsToImportSpecs ps s
   \<and> (action s \<longrightarrow> action (getDecoratorsToImportSpecs ps s))
   \<and> (classNames s \<longrightarrow> classNames (getDecoratorsToImportSpecs ps s))
   \<and> (classNameBindings s \<longrightarrow> classNameBindings (getDecoratorsToImportSpecs ps s))
   \<and> (attributeBindings s \<longrightarrow> attributeBindings (getDecoratorsToImportSpecs ps s))
   \<and> (layout s \<longrightarrow> layout (getDecoratorsToImportSpecs ps s))
   \<and> (templateLayout s \<longrightarrow> templateLayout (getDecoratorsToImportSpecs ps s))
   \<and> (off_spec s \<longrightarrow> off_spec (getDecoratorsToImportSpecs ps s))
   \<and> (tagName s \<longrightarrow> tagName (getDecoratorsToImportSpecs ps s))
   \<and> (unobserves_spec s \<longrightarrow> unobserves_spec (getDecoratorsToImportSpecs ps s))"
proof (intro conjI impI)
  show "getDecoratorsToImportSpecs ps s = foldl or_specs s (map contribution ps)"
    by (rule import_specs_fold)
  show "or_specs (or_specs a b) c = or_specs a (or_specs b c)"
    by (rule or_specs_assoc)
  show "or_specs a b = or_specs b a"
    by (rule or_specs_commute)
  show "or_specs a a = a"
    by (rule or_specs_idem)
  show "getDecoratorsToImportSpecs (ps @ qs) s
      = getDecoratorsToImportSpecs qs (getDecoratorsToImportSpecs ps s)"
    by (rule import_specs_append)
  show "getDecoratorsToImportSpecs (ps @ qs) s
      = or_specs (getDecoratorsToImportSpecs ps s) (getDecoratorsToImportSpecs qs no_specs)"
    using import_specs_or [of qs "getDecoratorsToImportSpecs ps s"]
    by (simp only: import_specs_append)
  show "getDecoratorsToImportSpecs (ps @ qs) s = getDecoratorsToImportSpecs (qs @ ps) s"
    by (rule import_specs_set) auto
  show "getDecoratorsToImportSpecs ps s = getDecoratorsToImportSpecs qs s" if "set ps = set qs"
    using that by (rule import_specs_set)
  show "getDecoratorsToImportSpecs ps (getDecoratorsToImportSpecs ps s)
      = getDecoratorsToImportSpecs ps s"
    by (rule import_specs_idem)
  show "action (getDecoratorsToImportSpecs ps s)" if "action s"
    using that by (simp only: import_specs_fields(1) simp_thms)
  show "classNames (getDecoratorsToImportSpecs ps s)" if "classNames s"
    using that by (simp only: import_specs_fields(2) simp_thms)
  show "classNameBindings (getDecoratorsToImportSpecs ps s)" if "classNameBindings s"
    using that by (simp only: import_specs_fields(3) simp_thms)
  show "attributeBindings (getDecoratorsToImportSpecs ps s)" if "attributeBindings s"
    using that by (simp only: import_specs_fields(4) simp_thms)
  show "layout (getDecoratorsToImportSpecs ps s)" if "layout s"
    using that by (simp only: import_specs_fields(5) simp_thms)
  show "templateLayout (getDecoratorsToImportSpecs ps s)" if "templateLayout s"
    using that by (simp only: import_specs_fields(6) simp_thms)
  show "off_spec (getDecoratorsToImportSpecs ps s)" if "off_spec s"
    using that by (simp only: import_specs_fields(7) simp_thms)
  show "tagName (getDecoratorsToImportSpecs ps s)" if "tagName s"
    using that by (simp only: import_specs_fields(8) simp_thms)
  show "unobserves_spec (getDecoratorsToImportSpecs ps s)" if "unobserves_spec s"
    using that by (simp only: import_specs_fields(9) simp_thms)
qed

theorem import_specs_fold_laws_witness:
  "set [foo_model, empty_actions_model] = set [empty_actions_model, foo_model, foo_model]
   \<and> getDecoratorsToImportSpecs [foo_model, empty_actions_model] no_specs
       = getDecoratorsToImportSpecs [empty_actions_model, foo_model, foo_model] no_specs
   \<and> getDecoratorsToImportSpecs [foo_model, empty_actions_model] no_specs
       = no_specs \<lparr> action := True, unobserves_spec := True \<rparr>
   \<and> getDecoratorsToImportSpecs [foo_model, empty_actions_model] every_spec = every_spec"
proof -
  have same: "set [foo_model, empty_actions_model] = set [empty_actions_model, foo_model, foo_model]"
    by auto
  note laws = import_specs_fold_laws [of "[foo_model, empty_actions_model]" no_specs no_specs no_specs
      no_specs "[empty_actions_model, foo_model, foo_model]"]
  have eq: "getDecoratorsToImportSpecs [foo_model, empty_actions_model] no_specs
       = getDecoratorsToImportSpecs [empty_actions_model, foo_model, foo_model] no_specs"
    using laws same by blast
  have val: "getDecoratorsToImportSpecs [foo_model, empty_actions_model] no_specs
       = no_specs \<lparr> action := True, unobserves_spec := True \<rparr>"
  proof -
    from laws have "getDecoratorsToImportSpecs [foo_model, empty_actions_model] no_specs
        = foldl or_specs no_specs (map contribution [foo_model, empty_actions_model])"
      by (elim conjE)
    then show ?thesis
      by (simp add: foo_model_contribution empty_actions_model_contribution or_specs_def no_specs_def)
  qed
  note laws' = import_specs_fold_laws [of "[foo_model, empty_actions_model]" every_spec no_specs no_specs
      no_specs "[]"]
  have all: "action every_spec" "classNames every_spec" "classNameBindings every_spec"
    "attributeBindings every_spec" "layout every_spec" "templateLayout every_spec"
    "off_spec every_spec" "tagName every_spec" "unobserves_spec every_spec"
    by (simp_all add: every_spec_def)
  have top: "getDecoratorsToImportSpecs [foo_model, empty_actions_model] every_spec = every_spec"
  proof (rule DecoratorImportSpecs.equality)
    show "action (getDecoratorsToImportSpecs [foo_model, empty_actions_model] every_spec) = action every_spec"
      using laws' all by blast
    show "classNames (getDecoratorsToImportSpecs [foo_model, empty_actions_model] every_spec) = classNames every_spec"
      using laws' all by blast
    show "classNameBindings (getDecoratorsToImportSpecs [foo_model, empty_actions_model] every_spec) = classNameBindings every_spec"
      using laws' all by blast
    show "attributeBindings (getDecoratorsToImportSpecs [foo_model, empty_actions_model] every_spec) = attributeBindings every_spec"
      using laws' all by blast
    show "layout (getDecoratorsToImportSpecs [foo_model, empty_actions_model] every_spec) = layout every_spec"
      using laws' all by blast
    show "templateLayout (getDecoratorsToImportSpecs [foo_model, empty_actions_model] every_spec) = templateLayout every_spec"
      using laws' all by blast
    show "off_spec (getDecoratorsToImportSpecs [foo_model, empty_actions_model] every_spec) = off_spec every_spec"
      using laws' all by blast
    show "tagName (getDecoratorsToImportSpecs [foo_model, empty_actions_model] every_spec) = tagName every_spec"
      using laws' all by blast
    show "unobserves_spec (getDecoratorsToImportSpecs [foo_model, empty_actions_model] every_spec) = unobserves_spec every_spec"
      using laws' all by blast
    show "DecoratorImportSpecs.more (getDecoratorsToImportSpecs [foo_model, empty_actions_model] every_spec) = DecoratorImportSpecs.more every_spec"
      by simp
  qed
  show ?thesis
    using same eq val top by blast
qed

section \<open>Actions objects and the import of the action decorator\<close>

lemma rawProp_new: "rawProp (AbstractEOProp_new eoProp runtimeData) = eoProp"
  by (simp add: AbstractEOProp_new_def initial_def merge_runtime_def Let_def
      split: option.split)

lemma EOProp_new_fields:
  "rawProp (EOProp_new c eoProp runtimeData getters) = eoProp"
  "cls (EOProp_new c eoProp runtimeData getters) = c"
  by (simp_all add: EOProp_new_def AbstractEOProp.extend_def EOProp.fields_def rawProp_new)

lemma action_methods_annotated:
  "(\<exists>m \<in> set (action_methods this). createDecoratorWithArgs ''action'' [] \<in> set (m_decorators m))
     = (\<exists>e \<in> set (object_properties (value_of this)). is_function_entry e)"
  by (auto simp add: action_methods_def expand_actions_def action_entry_def split: if_splits)

text \<open>
  C5, as stated, fails: the model of \<^verbatim>\<open>actions: {}\<close> is an instance of the actions
  class, so aggregating it over the all-false record sets \<open>action\<close>, although it expands to
  no method at all.
\<close>

theorem action_import_without_action_method:
  "instanceof empty_actions_model EOActionsProp
   \<and> \<not> action no_specs
   \<and> action (getDecoratorsToImportSpecs [empty_actions_model] no_specs)
   \<and> expand_actions empty_actions_model = []
   \<and> action_methods empty_actions_model = []"
  by (simp add: empty_actions_model_eq instanceof_def import_step_def no_specs_def
      action_methods_def expand_actions_def object_properties_def value_of_def empty_actions_decl_def)

text \<open>
  C5, amended. The \<open>action\<close> field of the aggregated record is true exactly when it was
  true in the existing record or some model is an instance of the actions class; from the
  all-false record, exactly when some model is such an instance. Whether that model is
  realised as a method does not enter: it has a method carrying the \<^verbatim>\<open>action\<close> annotation
  exactly when its object map has a function-valued entry.
\<close>

theorem action_import_follows_class:
  "action (getDecoratorsToImportSpecs ps s) = (action s \<or> (\<exists>p \<in> set ps. instanceof p EOActionsProp))
   \<and> action (getDecoratorsToImportSpecs ps no_specs) = (\<exists>p \<in> set ps. instanceof p EOActionsProp)
   \<and> (\<exists>m \<in> set (action_methods this). createDecoratorWithArgs ''action'' [] \<in> set (m_decorators m))
       = (\<exists>e \<in> set (object_properties (value_of this)). is_function_entry e)"
  by (simp add: import_specs_fields(1) action_methods_annotated no_specs_def)

text \<open>
  C8. The declaration \<^verbatim>\<open>actions: { save: function () {...}, cancel: function () {...} }\<close>
  is classified as an actions object; its expansion is exactly two methods, \<^verbatim>\<open>save\<close> and
  \<^verbatim>\<open>cancel\<close>, each with the one decorator \<^verbatim>\<open>action\<close>; and the \<open>action\<close> field of the
  aggregated import record is true, whatever other models are aggregated with it and
  whatever the existing record.
\<close>

theorem save_cancel_become_action_methods:
  "makeEOProp ast_guards factory (save_cancel_decl b1 b2) infos opts
     = Inr (New EOActionsProp (save_cancel_decl b1 b2) opts)
   \<and> expand_actions (EOProp_new EOActionsProp (save_cancel_decl b1 b2) rd getters)
     = [Inr \<lparr> m_key = ''save'', m_body = FunctionExpression b1,
              m_decorators = [DecoratorNode ''action'' []] \<rparr>,
        Inr \<lparr> m_key = ''cancel'', m_body = FunctionExpression b2,
              m_decorators = [DecoratorNode ''action'' []] \<rparr>]
   \<and> action_methods (EOProp_new EOActionsProp (save_cancel_decl b1 b2) rd getters)
     = [\<lparr> m_key = ''save'', m_body = FunctionExpression b1,
          m_decorators = [DecoratorNode ''action'' []] \<rparr>,
        \<lparr> m_key = ''cancel'', m_body = FunctionExpression b2,
          m_decorators = [DecoratorNode ''action'' []] \<rparr>]
   \<and> action (getDecoratorsToImportSpecs
         (before @ EOProp_new EOActionsProp (save_cancel_decl b1 b2) rd getters # after) s)"
proof (intro conjI)
  show "makeEOProp ast_guards factory (save_cancel_decl b1 b2) infos opts
     = Inr (New EOActionsProp (save_cancel_decl b1 b2) opts)"
    by (simp add: makeEOProp_def ast_guards_def save_cancel_decl_def classDecoratorNames_def)
  show e: "expand_actions (EOProp_new EOActionsProp (save_cancel_decl b1 b2) rd getters)
     = [Inr \<lparr> m_key = ''save'', m_body = FunctionExpression b1,
              m_decorators = [DecoratorNode ''action'' []] \<rparr>,
        Inr \<lparr> m_key = ''cancel'', m_body = FunctionExpression b2,
              m_decorators = [DecoratorNode ''action'' []] \<rparr>]"
    by (simp add: expand_actions_def value_of_def EOProp_new_fields save_cancel_decl_def
        object_properties_def action_entry_def is_function_entry_def createDecoratorWithArgs_def)
  show "action_methods (EOProp_new EOActionsProp (save_cancel_decl b1 b2) rd getters)
     = [\<lparr> m_key = ''save'', m_body = FunctionExpression b1,
          m_decorators = [DecoratorNode ''action'' []] \<rparr>,
        \<lparr> m_key = ''cancel'', m_body = FunctionExpression b2,
          m_decorators = [DecoratorNode ''action'' []] \<rparr>]"
    by (simp add: action_methods_def e)
  show "action (getDecoratorsToImportSpecs
         (before @ EOProp_new EOActionsProp (save_cancel_decl b1 b2) rd getters # after) s)"
    by (simp add: import_specs_fields(1) instanceof_def EOProp_new_fields)
qed

section \<open>Classification\<close>

text \<open>
  The predicates modelled from the decision table leave no declaration unrecognised: the
  one for simple properties accepts what the five before it reject.
\<close>

lemma ast_guards_cover:
  "\<not> isEOPropertyWithCallExpression ast_guards p \<Longrightarrow> \<not> isEOMethod ast_guards p \<Longrightarrow>
   \<not> isEOPropertyWithFunctionExpression ast_guards p \<Longrightarrow>
   \<not> isEOPropertyForClassDecorator ast_guards p \<Longrightarrow>
   \<not> isEOPropertyForActionsObject ast_guards p \<Longrightarrow> isEOPropertySimple ast_guards p"
  by (simp add: ast_guards_def)




end
